theory Spec2Isabelle
  imports Complex_Main "HOL-Library.Word"
begin

section \<open>JavaScript values used by the SDK\<close>

text \<open>
  Strings are lists of code units; \<^typ>\<open>char\<close> covers the code units below 256, which is
  where every character the code tests for lives (hex digits, \<open>0x\<close>, signs, white space).
  A \<open>Uint8Array\<close> is a list of bytes.
\<close>

type_synonym byte = "8 word"

subsection \<open>String builtins\<close>

definition startsWith :: "string \<Rightarrow> string \<Rightarrow> bool" where
  "startsWith s p = (take (length p) s = p)"

definition slice_from :: "nat \<Rightarrow> string \<Rightarrow> string" where
  \<comment> \<open>\<open>s.slice(n)\<close> for a non-negative \<open>n\<close>\<close>
  "slice_from n s = drop n s"

definition substr :: "string \<Rightarrow> nat \<Rightarrow> nat \<Rightarrow> string" where
  \<comment> \<open>\<open>s.substr(i, n)\<close>: at most \<open>n\<close> code units from index \<open>i\<close>\<close>
  "substr s i n = take n (drop i s)"

definition substring :: "string \<Rightarrow> nat \<Rightarrow> nat \<Rightarrow> string" where
  \<comment> \<open>\<open>s.substring(i, j)\<close>: both indices clamped to the length, swapped when \<open>i > j\<close>\<close>
  "substring s i j =
     (let a = min i (length s); b = min j (length s)
      in take (max a b - min a b) (drop (min a b) s))"

fun replace_first :: "string \<Rightarrow> string \<Rightarrow> string \<Rightarrow> string" where
  \<comment> \<open>\<open>s.replace(pat, rep)\<close> with a string pattern: only the first occurrence is replaced\<close>
  "replace_first pat rep [] = (if pat = [] then rep else [])"
| "replace_first pat rep (c # cs) =
     (if startsWith (c # cs) pat then rep @ drop (length pat) (c # cs)
      else c # replace_first pat rep cs)"

definition padStart :: "nat \<Rightarrow> string \<Rightarrow> string \<Rightarrow> string" where
  \<comment> \<open>\<open>s.padStart(n, pad)\<close>\<close>
  "padStart n pad s =
     (if n \<le> length s \<or> pad = [] then s
      else take (n - length s) (concat (replicate (n - length s) pad)) @ s)"

definition hex_digit :: "nat \<Rightarrow> char" where
  "hex_digit d = ''0123456789abcdef'' ! d"

fun toString16 :: "nat \<Rightarrow> string" where
  \<comment> \<open>\<open>n.toString(16)\<close> for a non-negative integer \<open>n\<close>\<close>
  "toString16 n = (if n < 16 then [hex_digit n] else toString16 (n div 16) @ [hex_digit (n mod 16)])"

declare toString16.simps [simp del]

subsection \<open>\<open>parseInt(s, 16)\<close> and storing into a \<open>Uint8Array\<close>\<close>

definition StrWhiteSpaceChar :: "char \<Rightarrow> bool" where
  \<comment> \<open>TAB, LF, VT, FF, CR, SP, NBSP\<close>
  "StrWhiteSpaceChar c = (of_char c \<in> {9, 10, 11, 12, 13, 32, 160 :: nat})"

definition digit_val :: "char \<Rightarrow> nat option" where
  "digit_val c =
     (let n = (of_char c :: nat) in
      if 48 \<le> n \<and> n \<le> 57 then Some (n - 48)
      else if 97 \<le> n \<and> n \<le> 102 then Some (n - 87)
      else if 65 \<le> n \<and> n \<le> 70 then Some (n - 55)
      else None)"

definition is_hex_char :: "char \<Rightarrow> bool" where
  "is_hex_char c = (digit_val c \<noteq> None)"

definition digits_value :: "string \<Rightarrow> int" where
  "digits_value ds =
     foldl (\<lambda>acc c. 16 * acc + (case digit_val c of Some d \<Rightarrow> int d | None \<Rightarrow> 0)) 0 ds"

definition parseInt16 :: "string \<Rightarrow> int option" where
  \<comment> \<open>\<open>parseInt(s, 16)\<close>; \<open>None\<close> is NaN. Leading white space is skipped, one sign is read,
     a \<open>0x\<close>/\<open>0X\<close> prefix is dropped, then the longest run of hex digits is the value.\<close>
  "parseInt16 s =
     (let s1 = dropWhile StrWhiteSpaceChar s;
          sign = (if s1 \<noteq> [] \<and> hd s1 = CHR ''-'' then - 1 else 1 :: int);
          s2 = (if s1 \<noteq> [] \<and> (hd s1 = CHR ''+'' \<or> hd s1 = CHR ''-'') then tl s1 else s1);
          s3 = (if startsWith s2 ''0x'' \<or> startsWith s2 ''0X'' then drop 2 s2 else s2);
          z = takeWhile is_hex_char s3
      in if z = [] then None else Some (sign * digits_value z))"

definition ToUint8 :: "int option \<Rightarrow> byte" where
  \<comment> \<open>the conversion a \<open>Uint8Array\<close> store applies: NaN becomes 0, an integer is taken modulo 256\<close>
  "ToUint8 v = (case v of None \<Rightarrow> 0 | Some n \<Rightarrow> word_of_int n)"

definition typed_set :: "byte list \<Rightarrow> nat \<Rightarrow> byte \<Rightarrow> byte list" where
  \<comment> \<open>\<open>bytes[i] = v\<close> on a typed array: a store past the end is ignored\<close>
  "typed_set bytes i v = (if i < length bytes then bytes[i := v] else bytes)"

definition new_Uint8Array :: "nat \<Rightarrow> byte list" where
  "new_Uint8Array n = replicate n 0"

section \<open>EncryptionCodec: \<open>utils/encryption\<close> and \<open>lib/utils/security\<close>\<close>

definition encryptedToHex :: "byte list \<Rightarrow> string" where
  "encryptedToHex encrypted =
     ''0x'' @ concat (map (\<lambda>b. padStart 2 ''0'' (toString16 (unat b))) encrypted)"

function hexToUint8Array_loop :: "string \<Rightarrow> nat \<Rightarrow> byte list \<Rightarrow> byte list" where
  "hexToUint8Array_loop cleanHex i bytes =
     (if i < length cleanHex
      then hexToUint8Array_loop cleanHex (i + 2)
             (typed_set bytes (i div 2) (ToUint8 (parseInt16 (substr cleanHex i 2))))
      else bytes)"
  by pat_completeness auto
termination
  by (relation "measure (\<lambda>(cleanHex, i, bytes). length cleanHex - i)") auto

declare hexToUint8Array_loop.simps [simp del]

definition hexToUint8Array :: "string \<Rightarrow> byte list" where
  \<comment> \<open>\<open>new Uint8Array(n / 2)\<close> truncates a fractional length\<close>
  "hexToUint8Array hex =
     (let cleanHex = (if startsWith hex ''0x'' then slice_from 2 hex else hex)
      in hexToUint8Array_loop cleanHex 0 (new_Uint8Array (length cleanHex div 2)))"

definition bytesToHex :: "byte list \<Rightarrow> string" where
  "bytesToHex bytes =
     ''0x'' @ concat (map (\<lambda>b. padStart 2 ''0'' (toString16 (unat b))) bytes)"

function hexToBytes_loop :: "string \<Rightarrow> nat \<Rightarrow> byte list \<Rightarrow> byte list" where
  "hexToBytes_loop cleaned i bytes =
     (if i < length cleaned
      then hexToBytes_loop cleaned (i + 2)
             (typed_set bytes (i div 2) (ToUint8 (parseInt16 (substring cleaned i (i + 2)))))
      else bytes)"
  by pat_completeness auto
termination
  by (relation "measure (\<lambda>(cleaned, i, bytes). length cleaned - i)") auto

declare hexToBytes_loop.simps [simp del]

definition hexToBytes :: "string \<Rightarrow> byte list" where
  "hexToBytes hex =
     (let cleaned = replace_first ''0x'' '''' hex
      in hexToBytes_loop cleaned 0 (new_Uint8Array (length cleaned div 2)))"

definition enc :: "byte list \<Rightarrow> string" where
  \<comment> \<open>the digits \<open>bytesToHex\<close> and \<open>encryptedToHex\<close> write after the prefix\<close>
  "enc bs = concat (map (\<lambda>b. padStart 2 ''0'' (toString16 (unat b))) bs)"

definition group_byte :: "string \<Rightarrow> nat \<Rightarrow> byte" where
  \<comment> \<open>what the loops store at index \<open>k\<close>: the \<open>k\<close>-th group of two characters, read by
     \<open>parseInt\<close> and converted as a typed-array store does\<close>
  "group_byte s k = ToUint8 (parseInt16 (take 2 (drop (2 * k) s)))"

section \<open>Numbers and runtime values\<close>

text \<open>
  A JavaScript number is NaN, an infinity or a finite value; the finite values are kept as
  rationals (every double is one). \<open>Number(b)\<close> on a bigint rounds to the nearest double,
  ties to even, and overflows to an infinity.
\<close>

datatype js_number = NaN | PosInfinity | NegInfinity | Num rat

fun bitlen :: "nat \<Rightarrow> nat" where
  "bitlen n = (if n = 0 then 0 else Suc (bitlen (n div 2)))"

declare bitlen.simps [simp del]

definition round_to_double :: "nat \<Rightarrow> nat option" where
  \<comment> \<open>53 significant bits; \<open>None\<close> when the rounded value reaches \<open>2^1024\<close>\<close>
  "round_to_double n =
     (let e = bitlen n - 53;
          q = n div 2 ^ e;
          r = n mod 2 ^ e;
          q' = (if 2 ^ e < 2 * r \<or> (2 * r = 2 ^ e \<and> odd q) then q + 1 else q);
          v = q' * 2 ^ e
      in if 2 ^ 1024 \<le> v then None else Some v)"

definition Number_of_bigint :: "int \<Rightarrow> js_number" where
  "Number_of_bigint b =
     (case round_to_double (nat \<bar>b\<bar>) of
        None \<Rightarrow> (if b < 0 then NegInfinity else PosInfinity)
      | Some v \<Rightarrow> Num (of_int (sgn b * int v)))"

fun js_lt :: "js_number \<Rightarrow> js_number \<Rightarrow> bool" where
  \<comment> \<open>\<open>a < b\<close> on numbers: false whenever an operand is NaN\<close>
  "js_lt NaN _ = False"
| "js_lt _ NaN = False"
| "js_lt (Num a) (Num b) = (a < b)"
| "js_lt (Num _) PosInfinity = True"
| "js_lt (Num _) NegInfinity = False"
| "js_lt PosInfinity _ = False"
| "js_lt NegInfinity NegInfinity = False"
| "js_lt NegInfinity _ = True"

definition js_gt :: "js_number \<Rightarrow> js_number \<Rightarrow> bool" where
  "js_gt a b = js_lt b a"

fun Number_isInteger :: "js_number \<Rightarrow> bool" where
  "Number_isInteger (Num r) = (of_int \<lfloor>r\<rfloor> = r)"
| "Number_isInteger _ = False"

text \<open>
  Values of the union \<open>number | boolean | string | bigint\<close>. TypeScript's annotations are
  erased at run time, so the methods of the SDK and of the FHE instance receive such a value
  whatever their declared parameter type.
\<close>

datatype js_value = JNumber js_number | JBoolean bool | JString string | JBigInt int

text \<open>
  The conversions between strings and numbers are builtins of the language, not code of the
  SDK; the validator takes them as a parameter.
\<close>

record js_builtins =
  StringToNumber :: "string \<Rightarrow> js_number"
  StringToBigInt :: "string \<Rightarrow> int option"
  NumberToString :: "js_number \<Rightarrow> string"
  BigIntToString :: "int \<Rightarrow> string"

fun Number_of :: "js_builtins \<Rightarrow> js_value \<Rightarrow> js_number" where
  "Number_of bi (JNumber n) = n"
| "Number_of bi (JBoolean b) = Num (if b then 1 else 0)"
| "Number_of bi (JString s) = StringToNumber bi s"
| "Number_of bi (JBigInt i) = Number_of_bigint i"

fun BigInt_of :: "js_builtins \<Rightarrow> js_value \<Rightarrow> int option" where
  \<comment> \<open>\<open>BigInt(value)\<close>; \<open>None\<close> when it throws (RangeError on a non-integer number, SyntaxError
     on a string that is not an integer literal)\<close>
  "BigInt_of bi (JNumber n) =
     (case n of Num r \<Rightarrow> (if Number_isInteger n then Some \<lfloor>r\<rfloor> else None) | _ \<Rightarrow> None)"
| "BigInt_of bi (JBoolean b) = Some (if b then 1 else 0)"
| "BigInt_of bi (JString s) = StringToBigInt bi s"
| "BigInt_of bi (JBigInt i) = Some i"

fun String_of :: "js_builtins \<Rightarrow> js_value \<Rightarrow> string" where
  "String_of bi (JNumber n) = NumberToString bi n"
| "String_of bi (JBoolean b) = (if b then ''true'' else ''false'')"
| "String_of bi (JString s) = s"
| "String_of bi (JBigInt i) = BigIntToString bi i"

section \<open>InputValidator: \<open>lib/utils/validation\<close>\<close>

definition in_range :: "char \<Rightarrow> char \<Rightarrow> char \<Rightarrow> bool" where
  \<comment> \<open>a range \<open>lo-hi\<close> of a character class\<close>
  "in_range lo hi c = ((of_char lo :: nat) \<le> of_char c \<and> (of_char c :: nat) \<le> of_char hi)"

definition address_regex_test :: "string \<Rightarrow> bool" where
  \<comment> \<open>\<open>/^0x[a-fA-F0-9]{40}$/.test(s)\<close>: no flags, so \<open>$\<close> is the end of the input\<close>
  "address_regex_test s =
     (startsWith s ''0x'' \<and>
      length (drop 2 s) = 40 \<and>
      list_all (\<lambda>c. in_range CHR ''a'' CHR ''f'' c \<or> in_range CHR ''A'' CHR ''F'' c
                     \<or> in_range CHR ''0'' CHR ''9'' c) (drop 2 s))"

datatype validation = Valid | Invalid string
  \<comment> \<open>\<open>{ valid: true }\<close> and \<open>{ valid: false, error }\<close>\<close>

definition validateEncryptionValue :: "js_builtins \<Rightarrow> string \<Rightarrow> js_value \<Rightarrow> validation" where
  "validateEncryptionValue bi type' v =
     (if type' = ''bool'' then
        (case v of JBoolean _ \<Rightarrow> Valid | _ \<Rightarrow> Invalid ''Value must be a boolean'')
      else if type' = ''uint8'' then
        (let uint8Val = Number_of bi v in
         if \<not> Number_isInteger uint8Val \<or> js_lt uint8Val (Num 0) \<or> js_gt uint8Val (Num 255)
         then Invalid ''Value must be an integer between 0 and 255'' else Valid)
      else if type' = ''uint16'' then
        (let uint16Val = Number_of bi v in
         if \<not> Number_isInteger uint16Val \<or> js_lt uint16Val (Num 0) \<or> js_gt uint16Val (Num 65535)
         then Invalid ''Value must be an integer between 0 and 65535'' else Valid)
      else if type' = ''uint32'' then
        (let uint32Val = Number_of bi v in
         if \<not> Number_isInteger uint32Val \<or> js_lt uint32Val (Num 0)
            \<or> js_gt uint32Val (Num 4294967295)
         then Invalid ''Value must be an integer between 0 and 4294967295'' else Valid)
      else if type' = ''uint64'' then
        (case BigInt_of bi v of
           None \<Rightarrow> Invalid ''Value must be a valid BigInt''
         | Some uint64Val \<Rightarrow>
             if uint64Val < 0 \<or> uint64Val > 18446744073709551615
             then Invalid ''Value must be between 0 and 2^64-1'' else Valid)
      else if type' = ''address'' then
        (let addressStr = String_of bi v in
         if \<not> address_regex_test addressStr
         then Invalid ''Value must be a valid Ethereum address'' else Valid)
      else Invalid (''Unsupported type: '' @ type'))"

section \<open>External collaborators\<close>

text \<open>
  A thrown value is an \<open>Error\<close> with its message; interpolating it into a template string
  gives \<open>Error: message\<close>.
\<close>

datatype js_error = Error string

fun error_toString :: "js_error \<Rightarrow> string" where
  "error_toString (Error m) = (if m = [] then ''Error'' else ''Error: '' @ m)"

text \<open>The FHE instance of \<open>fhevmjs\<close> (interface \<open>FhevmInstance\<close>): every method may throw.\<close>

record fhevm_instance =
  inst_encrypt_bool :: "js_value \<Rightarrow> js_error + byte list"
  inst_encrypt_uint8 :: "js_value \<Rightarrow> js_error + byte list"
  inst_encrypt_uint16 :: "js_value \<Rightarrow> js_error + byte list"
  inst_encrypt_uint32 :: "js_value \<Rightarrow> js_error + byte list"
  inst_encrypt_uint64 :: "js_value \<Rightarrow> js_error + byte list"
  inst_encrypt_address :: "js_value \<Rightarrow> js_error + byte list"
  inst_getPublicKey :: "string \<Rightarrow> js_error + string \<times> string"
  inst_createEncryptedInput :: "string \<Rightarrow> string \<Rightarrow> js_error + nat"

text \<open>The provider of the configuration: a \<open>BrowserProvider\<close>, or an EIP-1193 transport that is
  wrapped into one at each use.\<close>

datatype browser_provider = BrowserProvider nat

datatype provider_handle = IsBrowserProvider browser_provider | IsEip1193Provider nat

fun as_BrowserProvider :: "provider_handle \<Rightarrow> browser_provider" where
  \<comment> \<open>\<open>p instanceof BrowserProvider ? p : new BrowserProvider(p)\<close>\<close>
  "as_BrowserProvider (IsBrowserProvider b) = b"
| "as_BrowserProvider (IsEip1193Provider t) = BrowserProvider t"

datatype network_info = Network (chainId_of: int)
  \<comment> \<open>\<open>network.chainId\<close> is a bigint\<close>

record eip712_domain =
  name :: string
  version :: string
  chainId :: js_number
  verifyingContract :: string

type_synonym eip712_types = "(string \<times> (string \<times> string) list) list"
  \<comment> \<open>type name, then its fields as (name, type)\<close>

record eip712_value =
  ciphertext :: "byte list"
  user :: string

datatype signer =
  Signer (signTypedData: "eip712_domain \<Rightarrow> eip712_types \<Rightarrow> eip712_value \<Rightarrow> js_error + string")

record create_params =
  cp_chainId :: js_number
  publicKeyVerifier :: "string option"
  cp_gatewayUrl :: "string option"

text \<open>What the outside answers during one call: the dynamic import, the provider, the
  library's \<open>createInstance\<close>.\<close>

record world =
  import_fhevmjs :: "js_error + (create_params \<Rightarrow> js_error + fhevm_instance)"
  getNetwork :: "browser_provider \<Rightarrow> js_error + network_info"
  getSigner :: "browser_provider \<Rightarrow> js_error + signer"

text \<open>The calls a method makes on its collaborators, in order.\<close>

datatype ext_call =
    ImportFhevmjs
  | GetNetwork browser_provider
  | GetSigner browser_provider
  | CreateInstance create_params
  | InstGetPublicKey string
  | InstEncryptBool js_value
  | InstEncryptUint8 js_value
  | InstEncryptUint16 js_value
  | InstEncryptUint32 js_value
  | InstEncryptUint64 js_value
  | InstEncryptAddress js_value
  | InstCreateEncryptedInput string string
  | SignTypedData eip712_domain eip712_types eip712_value

section \<open>FhevmClient\<close>

record fhevm_config =
  provider :: provider_handle
  contractAddress :: string
  aclAddress :: "string option"
  network :: "string option"
  gatewayUrl :: "string option"

record fhevm_client =
  config :: fhevm_config
  instance' :: "fhevm_instance option"
  publicKey :: "string option"
  signature :: "string option"

record initialize_result =
  ir_instance :: fhevm_instance
  ir_publicKey :: string
  ir_signature :: string

record decrypt_request =
  req_ciphertext :: "byte list"
  req_contractAddress :: string
  req_userAddress :: string

record decryption_result =
  value' :: js_value
  success :: bool

definition new_FhevmClient :: "fhevm_config \<Rightarrow> fhevm_client" where
  "new_FhevmClient cfg = \<lparr>config = cfg, instance' = None, publicKey = None, signature = None\<rparr>"

definition init_failed :: "js_error \<Rightarrow> js_error" where
  "init_failed e = Error (''Failed to initialize FHEVM: '' @ error_toString e)"

definition initialize ::
  "world \<Rightarrow> fhevm_client \<Rightarrow> fhevm_client \<times> ext_call list \<times> (js_error + initialize_result)" where
  \<comment> \<open>the client afterwards, the calls made, and the rejection or the resolved value\<close>
  "initialize w c =
     (case import_fhevmjs w of
        Inl e \<Rightarrow> (c, [ImportFhevmjs], Inl (init_failed e))
      | Inr createInstance \<Rightarrow>
          let bp = as_BrowserProvider (provider (config c)) in
          (case getNetwork w bp of
             Inl e \<Rightarrow> (c, [ImportFhevmjs, GetNetwork bp], Inl (init_failed e))
           | Inr net \<Rightarrow>
               let params = \<lparr>cp_chainId = Number_of_bigint (chainId_of net),
                             publicKeyVerifier = aclAddress (config c),
                             cp_gatewayUrl = gatewayUrl (config c)\<rparr> in
               (case createInstance params of
                  Inl e \<Rightarrow>
                    (c, [ImportFhevmjs, GetNetwork bp, CreateInstance params], Inl (init_failed e))
                | Inr i \<Rightarrow>
                    let c1 = c\<lparr>instance' := Some i\<rparr>;
                        calls = [ImportFhevmjs, GetNetwork bp, CreateInstance params,
                                 InstGetPublicKey (contractAddress (config c))] in
                    (case inst_getPublicKey i (contractAddress (config c)) of
                       Inl e \<Rightarrow> (c1, calls, Inl (init_failed e))
                     | Inr (pk, sg) \<Rightarrow>
                         (c1\<lparr>publicKey := Some pk, signature := Some sg\<rparr>, calls,
                          Inr \<lparr>ir_instance = i, ir_publicKey = pk, ir_signature = sg\<rparr>)))))"

definition not_initialized :: js_error where
  "not_initialized = Error ''FHEVM instance not initialized. Call initialize() first.''"

definition getInstance :: "fhevm_client \<Rightarrow> js_error + fhevm_instance" where
  "getInstance c = (case instance' c of None \<Rightarrow> Inl not_initialized | Some i \<Rightarrow> Inr i)"

definition falsy_string :: "string option \<Rightarrow> bool" where
  \<comment> \<open>\<open>!s\<close> for \<open>string | null\<close>: null and the empty string\<close>
  "falsy_string s = (s = None \<or> s = Some [])"

definition getPublicKey :: "fhevm_client \<Rightarrow> js_error + string" where
  "getPublicKey c =
     (if falsy_string (publicKey c) then Inl not_initialized
      else (case publicKey c of Some k \<Rightarrow> Inr k | None \<Rightarrow> Inl not_initialized))"

definition getSignature :: "fhevm_client \<Rightarrow> js_error + string" where
  "getSignature c =
     (if falsy_string (signature c) then Inl not_initialized
      else (case signature c of Some k \<Rightarrow> Inr k | None \<Rightarrow> Inl not_initialized))"

definition isInitialized :: "fhevm_client \<Rightarrow> bool" where
  "isInitialized c = (instance' c \<noteq> None)"

definition via_instance ::
  "fhevm_client \<Rightarrow> (fhevm_instance \<Rightarrow> ext_call list \<times> (js_error + 'a)) \<Rightarrow>
   ext_call list \<times> (js_error + 'a)" where
  \<comment> \<open>\<open>this.getInstance().m(...)\<close>: the throw of \<open>getInstance\<close> comes before any call\<close>
  "via_instance c m = (case getInstance c of Inl e \<Rightarrow> ([], Inl e) | Inr i \<Rightarrow> m i)"

definition encryptBool :: "fhevm_client \<Rightarrow> js_value \<Rightarrow> ext_call list \<times> (js_error + byte list)" where
  "encryptBool c v = via_instance c (\<lambda>i. ([InstEncryptBool v], inst_encrypt_bool i v))"

definition encryptUint8 :: "fhevm_client \<Rightarrow> js_value \<Rightarrow> ext_call list \<times> (js_error + byte list)" where
  "encryptUint8 c v = via_instance c (\<lambda>i. ([InstEncryptUint8 v], inst_encrypt_uint8 i v))"

definition encryptUint16 :: "fhevm_client \<Rightarrow> js_value \<Rightarrow> ext_call list \<times> (js_error + byte list)" where
  "encryptUint16 c v = via_instance c (\<lambda>i. ([InstEncryptUint16 v], inst_encrypt_uint16 i v))"

definition encryptUint32 :: "fhevm_client \<Rightarrow> js_value \<Rightarrow> ext_call list \<times> (js_error + byte list)" where
  "encryptUint32 c v = via_instance c (\<lambda>i. ([InstEncryptUint32 v], inst_encrypt_uint32 i v))"

definition encryptUint64 :: "fhevm_client \<Rightarrow> js_value \<Rightarrow> ext_call list \<times> (js_error + byte list)" where
  "encryptUint64 c v = via_instance c (\<lambda>i. ([InstEncryptUint64 v], inst_encrypt_uint64 i v))"

definition encryptAddress :: "fhevm_client \<Rightarrow> js_value \<Rightarrow> ext_call list \<times> (js_error + byte list)" where
  "encryptAddress c v = via_instance c (\<lambda>i. ([InstEncryptAddress v], inst_encrypt_address i v))"

definition createEncryptedInput :: "fhevm_client \<Rightarrow> string \<Rightarrow> ext_call list \<times> (js_error + nat)" where
  "createEncryptedInput c userAddress =
     via_instance c (\<lambda>i. ([InstCreateEncryptedInput (contractAddress (config c)) userAddress],
                          inst_createEncryptedInput i (contractAddress (config c)) userAddress))"

definition decryption_types :: eip712_types where
  "decryption_types = [(''Decryption'', [(''ciphertext'', ''bytes''), (''user'', ''address'')])]"

definition mock_result :: decryption_result where
  "mock_result = \<lparr>value' = JNumber (Num 0), success = True\<rparr>"

definition decryption_failed :: "js_error \<Rightarrow> js_error" where
  "decryption_failed e = Error (''Decryption failed: '' @ error_toString e)"

definition userDecrypt ::
  "world \<Rightarrow> fhevm_client \<Rightarrow> decrypt_request \<Rightarrow> ext_call list \<times> (js_error + decryption_result)" where
  "userDecrypt w c request =
     (let bp = as_BrowserProvider (provider (config c)) in
      case getSigner w bp of
        Inl e \<Rightarrow> ([GetSigner bp], Inl (decryption_failed e))
      | Inr the_signer \<Rightarrow>
          (case getNetwork w bp of
             Inl e \<Rightarrow> ([GetSigner bp, GetNetwork bp], Inl (decryption_failed e))
           | Inr net \<Rightarrow>
               let domain = \<lparr>name = ''FHEVM Decryption'', version = ''1'',
                             chainId = Number_of_bigint (chainId_of net),
                             verifyingContract = req_contractAddress request\<rparr>;
                   types = decryption_types;
                   val = \<lparr>ciphertext = req_ciphertext request, user = req_userAddress request\<rparr>;
                   calls = [GetSigner bp, GetNetwork bp, SignTypedData domain types val] in
               (case signTypedData the_signer domain types val of
                  Inl e \<Rightarrow> (calls, Inl (decryption_failed e))
                | Inr sg \<Rightarrow> (calls, Inr mock_result))))"

definition public_decryption_failed :: "js_error \<Rightarrow> js_error" where
  "public_decryption_failed e = Error (''Public decryption failed: '' @ error_toString e)"

definition try_catch ::
  "ext_call list \<times> (js_error + 'a) \<Rightarrow> (js_error \<Rightarrow> js_error) \<Rightarrow> ext_call list \<times> (js_error + 'a)" where
  \<comment> \<open>\<open>try { body } catch (error) { throw wrap(error) }\<close>\<close>
  "try_catch body wrap = (case snd body of Inl e \<Rightarrow> (fst body, Inl (wrap e)) | Inr r \<Rightarrow> body)"

definition publicDecrypt ::
  "fhevm_client \<Rightarrow> string \<Rightarrow> byte list \<Rightarrow> ext_call list \<times> (js_error + decryption_result)" where
  \<comment> \<open>the body of the \<open>try\<close> is the \<open>return\<close> of the mock result alone\<close>
  "publicDecrypt c contractAddr ct = try_catch ([], Inr mock_result) public_decryption_failed"

text \<open>The operations a caller can apply to a client. Only \<open>initialize\<close> assigns to a field.\<close>

datatype client_op =
    OpInitialize world
  | OpGetInstance
  | OpGetPublicKey
  | OpGetSignature
  | OpEncryptBool js_value
  | OpEncryptUint8 js_value
  | OpEncryptUint16 js_value
  | OpEncryptUint32 js_value
  | OpEncryptUint64 js_value
  | OpEncryptAddress js_value
  | OpCreateEncryptedInput string
  | OpUserDecrypt world decrypt_request
  | OpPublicDecrypt string "byte list"
  | OpIsInitialized

fun exec_op :: "fhevm_client \<Rightarrow> client_op \<Rightarrow> fhevm_client" where
  "exec_op c (OpInitialize w) = fst (initialize w c)"
| "exec_op c _ = c"

definition run_ops :: "fhevm_config \<Rightarrow> client_op list \<Rightarrow> fhevm_client" where
  \<comment> \<open>the client after construction and the given operations, in order\<close>
  "run_ops cfg ops = foldl exec_op (new_FhevmClient cfg) ops"

definition creates_instance :: "fhevm_config \<Rightarrow> world \<Rightarrow> bool" where
  \<comment> \<open>an \<open>initialize\<close> under this configuration gets as far as a resolved \<open>createInstance\<close>\<close>
  "creates_instance cfg w =
     (case import_fhevmjs w of
        Inl e \<Rightarrow> False
      | Inr createInstance \<Rightarrow>
          (case getNetwork w (as_BrowserProvider (provider cfg)) of
             Inl e \<Rightarrow> False
           | Inr net \<Rightarrow>
               \<not> isl (createInstance \<lparr>cp_chainId = Number_of_bigint (chainId_of net),
                                       publicKeyVerifier = aclAddress cfg,
                                       cp_gatewayUrl = gatewayUrl cfg\<rparr>)))"

fun op_creates_instance :: "fhevm_config \<Rightarrow> client_op \<Rightarrow> bool" where
  "op_creates_instance cfg (OpInitialize w) = creates_instance cfg w"
| "op_creates_instance cfg _ = False"

section \<open>React bindings: \<open>useFhevmEncrypt\<close> and \<open>useFhevmDecrypt\<close>\<close>

text \<open>
  The part of the provider's context value the two hooks read: the client (with the state it
  has when the callback runs) and the provider's \<open>isInitialized\<close> flag. A callback is modelled
  by the state setters it calls, in order, the calls it makes outside, and what its promise
  resolves to (\<open>None\<close> is \<open>null\<close>).
\<close>

record fhevm_context =
  ctx_client :: "fhevm_client option"
  ctx_isInitialized :: bool

definition client_not_initialized :: js_error where
  "client_not_initialized = Error ''FHEVM client not initialized''"

datatype encrypt_action =
    SetIsEncrypting bool
  | SetEncrypted "byte list option"
  | SetEncryptedHex "string option"
  | SetError "js_error option"

record encrypt_state =
  isEncrypting :: bool
  encrypted :: "byte list option"
  encryptedHex :: "string option"
  error :: "js_error option"

definition encrypt_state_init :: encrypt_state where
  "encrypt_state_init = \<lparr>isEncrypting = False, encrypted = None, encryptedHex = None, error = None\<rparr>"

fun apply_encrypt_action :: "encrypt_state \<Rightarrow> encrypt_action \<Rightarrow> encrypt_state" where
  "apply_encrypt_action st (SetIsEncrypting b) = st\<lparr>isEncrypting := b\<rparr>"
| "apply_encrypt_action st (SetEncrypted r) = st\<lparr>encrypted := r\<rparr>"
| "apply_encrypt_action st (SetEncryptedHex h) = st\<lparr>encryptedHex := h\<rparr>"
| "apply_encrypt_action st (SetError e) = st\<lparr>error := e\<rparr>"

fun encrypt_states :: "encrypt_state \<Rightarrow> encrypt_action list \<Rightarrow> encrypt_state list" where
  \<comment> \<open>the state before the callback and after each setter\<close>
  "encrypt_states st [] = [st]"
| "encrypt_states st (a # as) = st # encrypt_states (apply_encrypt_action st a) as"

definition encrypt_switch ::
  "fhevm_client \<Rightarrow> string \<Rightarrow> js_value \<Rightarrow> ext_call list \<times> (js_error + byte list)" where
  "encrypt_switch client type' v =
     (if type' = ''bool'' then encryptBool client v
      else if type' = ''uint8'' then encryptUint8 client v
      else if type' = ''uint16'' then encryptUint16 client v
      else if type' = ''uint32'' then encryptUint32 client v
      else if type' = ''uint64'' then encryptUint64 client v
      else if type' = ''address'' then encryptAddress client v
      else ([], Inl (Error (''Unsupported type: '' @ type'))))"

definition useFhevmEncrypt_encrypt ::
  "fhevm_context \<Rightarrow> string \<Rightarrow> js_value \<Rightarrow>
   encrypt_action list \<times> ext_call list \<times> byte list option" where
  "useFhevmEncrypt_encrypt ctx type' v =
     (case ctx_client ctx of
        None \<Rightarrow> ([SetError (Some client_not_initialized)], [], None)
      | Some client \<Rightarrow>
          if \<not> ctx_isInitialized ctx then ([SetError (Some client_not_initialized)], [], None)
          else
            (case encrypt_switch client type' v of
               (calls, Inr result) \<Rightarrow>
                 ([SetIsEncrypting True, SetError None, SetEncrypted (Some result),
                   SetEncryptedHex (Some (encryptedToHex result)), SetIsEncrypting False],
                  calls, Some result)
             | (calls, Inl err) \<Rightarrow>
                 ([SetIsEncrypting True, SetError None, SetError (Some err),
                   SetIsEncrypting False],
                  calls, None)))"

datatype decrypt_action =
    SetIsDecrypting bool
  | SetDecrypted "js_value option"
  | SetDecryptError "js_error option"

record decrypt_state =
  isDecrypting :: bool
  decrypted :: "js_value option"
  decrypt_error :: "js_error option"

definition decrypt_state_init :: decrypt_state where
  "decrypt_state_init = \<lparr>isDecrypting = False, decrypted = None, decrypt_error = None\<rparr>"

fun apply_decrypt_action :: "decrypt_state \<Rightarrow> decrypt_action \<Rightarrow> decrypt_state" where
  "apply_decrypt_action st (SetIsDecrypting b) = st\<lparr>isDecrypting := b\<rparr>"
| "apply_decrypt_action st (SetDecrypted r) = st\<lparr>decrypted := r\<rparr>"
| "apply_decrypt_action st (SetDecryptError e) = st\<lparr>decrypt_error := e\<rparr>"

fun decrypt_states :: "decrypt_state \<Rightarrow> decrypt_action list \<Rightarrow> decrypt_state list" where
  "decrypt_states st [] = [st]"
| "decrypt_states st (a # as) = st # decrypt_states (apply_decrypt_action st a) as"

definition useFhevmDecrypt_decrypt ::
  "world \<Rightarrow> fhevm_context \<Rightarrow> decrypt_request \<Rightarrow>
   decrypt_action list \<times> ext_call list \<times> js_value option" where
  "useFhevmDecrypt_decrypt w ctx request =
     (case ctx_client ctx of
        None \<Rightarrow> ([SetDecryptError (Some client_not_initialized)], [], None)
      | Some client \<Rightarrow>
          if \<not> ctx_isInitialized ctx then ([SetDecryptError (Some client_not_initialized)], [], None)
          else
            (case userDecrypt w client request of
               (calls, Inr result) \<Rightarrow>
                 ([SetIsDecrypting True, SetDecryptError None, SetDecrypted (Some (value' result)),
                   SetIsDecrypting False],
                  calls, Some (value' result))
             | (calls, Inl err) \<Rightarrow>
                 ([SetIsDecrypting True, SetDecryptError None, SetDecryptError (Some err),
                   SetIsDecrypting False],
                  calls, None)))"

section \<open>Sample collaborators\<close>

text \<open>Concrete collaborators on which the model is run: a working FHE instance, one whose
  \<open>getPublicKey\<close> throws, a Sepolia provider and a signer.\<close>

definition sample_instance :: fhevm_instance where
  "sample_instance =
     \<lparr>inst_encrypt_bool = (\<lambda>v. Inr [1, 2, 3]),
      inst_encrypt_uint8 = (\<lambda>v. Inr [1, 2, 3]),
      inst_encrypt_uint16 = (\<lambda>v. Inr [1, 2, 3]),
      inst_encrypt_uint32 = (\<lambda>v. Inr [1, 2, 3]),
      inst_encrypt_uint64 = (\<lambda>v. Inr [1, 2, 3]),
      inst_encrypt_address = (\<lambda>v. Inr [1, 2, 3]),
      inst_getPublicKey = (\<lambda>a. Inr (''0xkey'', ''0xsig'')),
      inst_createEncryptedInput = (\<lambda>a u. Inr 0)\<rparr>"

definition keyless_instance :: fhevm_instance where
  "keyless_instance = sample_instance\<lparr>inst_getPublicKey := (\<lambda>a. Inl (Error ''no key''))\<rparr>"

definition sample_signer :: signer where
  "sample_signer = Signer (\<lambda>d t v. Inr ''0xsigned'')"

definition sample_world :: world where
  "sample_world =
     \<lparr>import_fhevmjs = Inr (\<lambda>p. Inr sample_instance),
      getNetwork = (\<lambda>b. Inr (Network 11155111)),
      getSigner = (\<lambda>b. Inr sample_signer)\<rparr>"

definition keyless_world :: world where
  "keyless_world = sample_world\<lparr>import_fhevmjs := Inr (\<lambda>p. Inr keyless_instance)\<rparr>"

definition offline_world :: world where
  "offline_world = sample_world\<lparr>getNetwork := (\<lambda>b. Inl (Error ''network down''))\<rparr>"

definition sample_config :: fhevm_config where
  "sample_config =
     \<lparr>provider = IsEip1193Provider 0,
      contractAddress = ''0x'' @ replicate 40 CHR ''a'',
      aclAddress = None, network = None, gatewayUrl = None\<rparr>"

definition sample_request :: decrypt_request where
  "sample_request =
     \<lparr>req_ciphertext = [1, 2, 3],
      req_contractAddress = ''0x'' @ replicate 40 CHR ''c'',
      req_userAddress = ''0x'' @ replicate 40 CHR ''d''\<rparr>"

definition sample_builtins :: js_builtins where
  \<comment> \<open>stand-ins for the string conversions, which the sampled inputs do not reach\<close>
  "sample_builtins =
     \<lparr>StringToNumber = (\<lambda>s. NaN), StringToBigInt = (\<lambda>s. None),
      NumberToString = (\<lambda>n. ''NaN''), BigIntToString = (\<lambda>i. ''0'')\<rparr>"

section \<open>Properties of the codec\<close>


lemma hex_digit_cases:
  assumes "d < 16"
  shows "d \<in> {0,1,2,3,4,5,6,7,8,9,10,11,12,13,14,15::nat}"
  using assms by simp arith

lemma digit_val_hex_digit: "d < 16 \<Longrightarrow> digit_val (hex_digit d) = Some d"
  using hex_digit_cases [of d]
  by (auto simp: digit_val_def hex_digit_def)

lemma hex_digit_not_ws: "d < 16 \<Longrightarrow> \<not> StrWhiteSpaceChar (hex_digit d)"
  using hex_digit_cases [of d]
  by (auto simp: StrWhiteSpaceChar_def hex_digit_def)

lemma hex_digit_not_special:
  "d < 16 \<Longrightarrow> hex_digit d \<noteq> CHR ''-'' \<and> hex_digit d \<noteq> CHR ''+'' \<and> hex_digit d \<noteq> CHR ''x'' \<and> hex_digit d \<noteq> CHR ''X''"
  using hex_digit_cases [of d]
  by (auto simp: hex_digit_def)

lemma parseInt16_pair:
  assumes "h < 16" "l < 16"
  shows "parseInt16 [hex_digit h, hex_digit l] = Some (int (16 * h + l))"
  using assms hex_digit_not_ws [of h] hex_digit_not_special [of h] hex_digit_not_special [of l]
    digit_val_hex_digit [of h] digit_val_hex_digit [of l]
  by (simp add: parseInt16_def startsWith_def is_hex_char_def digits_value_def Let_def)

lemma byte_hex:
  "padStart 2 ''0'' (toString16 (unat (b::byte))) = [hex_digit (unat b div 16), hex_digit (unat b mod 16)]"
proof -
  have lt: "unat b < 256" using unsigned_less [of b, where ?'a = nat] by simp
  show ?thesis
  proof (cases "unat b < 16")
    case True
    then show ?thesis
      by (simp add: toString16.simps [of "unat b"] padStart_def hex_digit_def)
  next
    case False
    with lt have "unat b div 16 < 16" by simp
    with False show ?thesis
      by (simp add: toString16.simps [of "unat b"] toString16.simps [of "unat b div 16"] padStart_def)
  qed
qed

lemma ToUint8_pair:
  "ToUint8 (parseInt16 [hex_digit (unat (b::byte) div 16), hex_digit (unat b mod 16)]) = b"
proof -
  have lt: "unat b < 256" using unsigned_less [of b, where ?'a = nat] by simp
  then have "unat b div 16 < 16" by simp
  then have "parseInt16 [hex_digit (unat b div 16), hex_digit (unat b mod 16)] = Some (int (unat b))"
    using parseInt16_pair [of "unat b div 16" "unat b mod 16"] by simp
  then show ?thesis by (simp add: ToUint8_def)
qed

lemma enc_Nil: "enc [] = []" by (simp add: enc_def)

lemma enc_Cons: "enc (b # bs) = hex_digit (unat b div 16) # hex_digit (unat b mod 16) # enc bs"
  by (simp add: enc_def byte_hex)

lemma length_enc: "length (enc bs) = 2 * length bs"
  by (induction bs) (simp_all add: enc_Nil enc_Cons)

lemma enc_pair_at:
  "k < length bs \<Longrightarrow>
   take 2 (drop (2 * k) (enc bs)) = [hex_digit (unat (bs ! k) div 16), hex_digit (unat (bs ! k) mod 16)]"
proof (induction bs arbitrary: k)
  case Nil
  then show ?case by simp
next
  case (Cons b bs)
  show ?case
  proof (cases k)
    case 0
    then show ?thesis by (simp add: enc_Cons)
  next
    case (Suc j)
    with Cons show ?thesis by (simp add: enc_Cons)
  qed
qed

lemma stored_byte_at:
  "k < length bs \<Longrightarrow> ToUint8 (parseInt16 (take 2 (drop (2 * k) (enc bs)))) = bs ! k"
  by (simp add: enc_pair_at ToUint8_pair)

lemma hexToUint8Array_loop_enc:
  "length bytes = length bs \<Longrightarrow> k \<le> length bs \<Longrightarrow>
   hexToUint8Array_loop (enc bs) (2 * k) bytes = take k bytes @ drop k bs"
proof (induction "length bs - k" arbitrary: k bytes)
  case 0
  then show ?case
    by (simp add: hexToUint8Array_loop.simps [of _ "2 * k"] length_enc)
next
  case (Suc n)
  then have lt: "k < length bs" by simp
  have step: "hexToUint8Array_loop (enc bs) (2 * k) bytes =
              hexToUint8Array_loop (enc bs) (2 * Suc k) (bytes[k := bs ! k])"
    using lt Suc.prems
    by (simp add: hexToUint8Array_loop.simps [of _ "2 * k"] length_enc typed_set_def substr_def
        stored_byte_at)
  have "hexToUint8Array_loop (enc bs) (2 * Suc k) (bytes[k := bs ! k]) =
        take (Suc k) (bytes[k := bs ! k]) @ drop (Suc k) bs"
    using Suc.hyps(1) [of "Suc k" "bytes[k := bs ! k]"] Suc.hyps(2) Suc.prems lt by simp
  also have "\<dots> = take k bytes @ drop k bs"
    using lt Suc.prems by (simp add: take_Suc_conv_app_nth Cons_nth_drop_Suc)
  finally show ?case using step by simp
qed

lemma hexToBytes_loop_enc:
  "length bytes = length bs \<Longrightarrow> k \<le> length bs \<Longrightarrow>
   hexToBytes_loop (enc bs) (2 * k) bytes = take k bytes @ drop k bs"
proof (induction "length bs - k" arbitrary: k bytes)
  case 0
  then show ?case
    by (simp add: hexToBytes_loop.simps [of _ "2 * k"] length_enc)
next
  case (Suc n)
  then have lt: "k < length bs" by simp
  have sub: "substring (enc bs) (2 * k) (Suc (Suc (2 * k))) = take 2 (drop (2 * k) (enc bs))"
    using lt by (simp add: substring_def length_enc Let_def min_def max_def)
  have step: "hexToBytes_loop (enc bs) (2 * k) bytes =
              hexToBytes_loop (enc bs) (2 * Suc k) (bytes[k := bs ! k])"
    using lt Suc.prems
    by (simp add: hexToBytes_loop.simps [of _ "2 * k"] length_enc typed_set_def sub
        stored_byte_at)
  have "hexToBytes_loop (enc bs) (2 * Suc k) (bytes[k := bs ! k]) =
        take (Suc k) (bytes[k := bs ! k]) @ drop (Suc k) bs"
    using Suc.hyps(1) [of "Suc k" "bytes[k := bs ! k]"] Suc.hyps(2) Suc.prems lt by simp
  also have "\<dots> = take k bytes @ drop k bs"
    using lt Suc.prems by (simp add: take_Suc_conv_app_nth Cons_nth_drop_Suc)
  finally show ?case using step by simp
qed

text \<open>
  Claim C5. For every byte sequence \<open>b\<close>, writing it as a \<open>0x\<close>-prefixed lowercase hex string
  and reading that string back returns \<open>b\<close>: \<open>hexToBytes (bytesToHex b) = b\<close> and
  \<open>hexToUint8Array (encryptedToHex b) = b\<close>.
\<close>

theorem codec_round_trip:
  "hexToBytes (bytesToHex b) = b \<and> hexToUint8Array (encryptedToHex b) = b"
proof
  have "bytesToHex b = ''0x'' @ enc b" by (simp add: bytesToHex_def enc_def)
  then have "hexToBytes (bytesToHex b) = hexToBytes_loop (enc b) (2 * 0) (new_Uint8Array (length b))"
    by (simp add: hexToBytes_def startsWith_def length_enc)
  then show "hexToBytes (bytesToHex b) = b"
    using hexToBytes_loop_enc [of "new_Uint8Array (length b)" b 0]
    by (simp add: new_Uint8Array_def)
next
  have "encryptedToHex b = ''0x'' @ enc b" by (simp add: encryptedToHex_def enc_def)
  then have "hexToUint8Array (encryptedToHex b) =
             hexToUint8Array_loop (enc b) (2 * 0) (new_Uint8Array (length b))"
    by (simp add: hexToUint8Array_def startsWith_def slice_from_def length_enc)
  then show "hexToUint8Array (encryptedToHex b) = b"
    using hexToUint8Array_loop_enc [of "new_Uint8Array (length b)" b 0]
    by (simp add: new_Uint8Array_def)
qed

lemma typed_set_length: "length (typed_set bytes i v) = length bytes"
  by (simp add: typed_set_def)

lemma hexToUint8Array_loop_groups:
  "length bytes = length s div 2 \<Longrightarrow>
   hexToUint8Array_loop s (2 * k) bytes = take k bytes @ map (group_byte s) [k..<length s div 2]"
proof (induction "length s - 2 * k" arbitrary: k bytes rule: less_induct)
  case less
  show ?case
  proof (cases "2 * k < length s")
    case False
    then have "length s div 2 \<le> k" by simp
    with False less.prems show ?thesis
      by (simp add: hexToUint8Array_loop.simps [of _ "2 * k"])
  next
    case True
    let ?b = "typed_set bytes k (group_byte s k)"
    have step: "hexToUint8Array_loop s (2 * k) bytes = hexToUint8Array_loop s (2 * Suc k) ?b"
      using True
      by (simp add: hexToUint8Array_loop.simps [of _ "2 * k"] substr_def group_byte_def)
    have len: "length ?b = length s div 2"
      using less.prems by (simp add: typed_set_length)
    have ih: "hexToUint8Array_loop s (2 * Suc k) ?b =
              take (Suc k) ?b @ map (group_byte s) [Suc k..<length s div 2]"
      using less.hyps [of "Suc k" ?b] True len by simp
    show ?thesis
    proof (cases "k < length s div 2")
      case True
      then have "take (Suc k) ?b = take k bytes @ [group_byte s k]"
        using less.prems by (simp add: typed_set_def take_Suc_conv_app_nth)
      with True step ih show ?thesis by (simp add: upt_conv_Cons)
    next
      case False
      then have "take (Suc k) ?b = take k bytes"
        using less.prems by (simp add: typed_set_def)
      with False step ih show ?thesis by simp
    qed
  qed
qed

lemma hexToBytes_loop_groups:
  "length bytes = length s div 2 \<Longrightarrow>
   hexToBytes_loop s (2 * k) bytes = take k bytes @ map (group_byte s) [k..<length s div 2]"
proof (induction "length s - 2 * k" arbitrary: k bytes rule: less_induct)
  case less
  show ?case
  proof (cases "2 * k < length s")
    case False
    then have "length s div 2 \<le> k" by simp
    with False less.prems show ?thesis
      by (simp add: hexToBytes_loop.simps [of _ "2 * k"])
  next
    case True
    let ?b = "typed_set bytes k (group_byte s k)"
    have sub: "substring s (2 * k) (Suc (Suc (2 * k))) = take 2 (drop (2 * k) s)"
      using True by (simp add: substring_def Let_def min_def max_def)
    have step: "hexToBytes_loop s (2 * k) bytes = hexToBytes_loop s (2 * Suc k) ?b"
      using True
      by (simp add: hexToBytes_loop.simps [of _ "2 * k"] sub group_byte_def)
    have len: "length ?b = length s div 2"
      using less.prems by (simp add: typed_set_length)
    have ih: "hexToBytes_loop s (2 * Suc k) ?b =
              take (Suc k) ?b @ map (group_byte s) [Suc k..<length s div 2]"
      using less.hyps [of "Suc k" ?b] True len by simp
    show ?thesis
    proof (cases "k < length s div 2")
      case True
      then have "take (Suc k) ?b = take k bytes @ [group_byte s k]"
        using less.prems by (simp add: typed_set_def take_Suc_conv_app_nth)
      with True step ih show ?thesis by (simp add: upt_conv_Cons)
    next
      case False
      then have "take (Suc k) ?b = take k bytes"
        using less.prems by (simp add: typed_set_def)
      with False step ih show ?thesis by simp
    qed
  qed
qed

text \<open>
  Claim C6, as amended. \<open>hexToUint8Array\<close> and \<open>hexToBytes\<close> never report invalid input:
  for every input string they return a byte sequence with one byte per complete group of two
  characters left after the prefix is removed, the byte being what \<open>parseInt(group, 16)\<close>
  gives when stored into a \<open>Uint8Array\<close> (0 when the group does not start with a hex
  number). A trailing odd character is ignored.
\<close>

theorem hex_decoding_never_fails:
  "hexToUint8Array hex =
     map (group_byte (if startsWith hex ''0x'' then slice_from 2 hex else hex))
       [0..<length (if startsWith hex ''0x'' then slice_from 2 hex else hex) div 2]
   \<and> hexToBytes hex =
     map (group_byte (replace_first ''0x'' [] hex))
       [0..<length (replace_first ''0x'' [] hex) div 2]"
  using hexToUint8Array_loop_groups
          [of "new_Uint8Array (length (if startsWith hex ''0x'' then slice_from 2 hex else hex) div 2)"
              "if startsWith hex ''0x'' then slice_from 2 hex else hex" 0]
        hexToBytes_loop_groups
          [of "new_Uint8Array (length (replace_first ''0x'' [] hex) div 2)"
              "replace_first ''0x'' [] hex" 0]
  by (simp add: hexToUint8Array_def hexToBytes_def new_Uint8Array_def Let_def)

text \<open>The characterisation of C6 at an odd-length input and at a group that is not hex.\<close>

theorem hex_decoding_never_fails_witness:
  "hexToUint8Array ''0x0aff1'' = [10, 255] \<and> hexToBytes ''0xg0'' = [0]"
  using hex_decoding_never_fails [of "''0x0aff1''"] hex_decoding_never_fails [of "''0xg0''"]
  by (simp add: startsWith_def slice_from_def group_byte_def parseInt16_def ToUint8_def
      StrWhiteSpaceChar_def is_hex_char_def digit_val_def digits_value_def upt_rec)

text \<open>
  Claim C6 as stated asks for a failure on an odd digit count and on a non-hex character.
  The code returns a byte sequence on \<open>0xabc\<close> and on \<open>0xzz\<close>.
\<close>

theorem hex_decoding_counterexample:
  "hexToUint8Array ''0xabc'' = [171] \<and> hexToBytes ''0xabc'' = [171]
   \<and> hexToUint8Array ''0xzz'' = [0] \<and> hexToBytes ''0xzz'' = [0]"
  by code_simp

section \<open>Properties of the validator\<close>

lemma hex_class_iff:
  "(in_range CHR ''a'' CHR ''f'' c \<or> in_range CHR ''A'' CHR ''F'' c \<or> in_range CHR ''0'' CHR ''9'' c)
   = (c \<in> set ''abcdefABCDEF0123456789'')"
proof -
  have a: "\<And>n::nat. (97 \<le> n \<and> n \<le> 102) = (n \<in> {97, 98, 99, 100, 101, 102})" by auto
  have b: "\<And>n::nat. (65 \<le> n \<and> n \<le> 70) = (n \<in> {65, 66, 67, 68, 69, 70})" by auto
  have c: "\<And>n::nat. (48 \<le> n \<and> n \<le> 57) = (n \<in> {48, 49, 50, 51, 52, 53, 54, 55, 56, 57})"
    by auto arith
  have e: "\<And>d. ((of_char c :: nat) = of_char d) = (c = d)" by simp
  note r = e [of "CHR ''a''"] e [of "CHR ''b''"] e [of "CHR ''c''"] e [of "CHR ''d''"] e [of "CHR ''e''"] e [of "CHR ''f''"] e [of "CHR ''A''"] e [of "CHR ''B''"] e [of "CHR ''C''"] e [of "CHR ''D''"] e [of "CHR ''E''"] e [of "CHR ''F''"] e [of "CHR ''0''"] e [of "CHR ''1''"] e [of "CHR ''2''"] e [of "CHR ''3''"] e [of "CHR ''4''"] e [of "CHR ''5''"] e [of "CHR ''6''"] e [of "CHR ''7''"] e [of "CHR ''8''"] e [of "CHR ''9''"]
  have abc: "(in_range CHR ''a'' CHR ''f'' c \<or> in_range CHR ''A'' CHR ''F'' c \<or> in_range CHR ''0'' CHR ''9'' c)
    = ((of_char c :: nat) \<in> {97, 98, 99, 100, 101, 102} \<or> (of_char c :: nat) \<in> {65, 66, 67, 68, 69, 70}
       \<or> (of_char c :: nat) \<in> {48, 49, 50, 51, 52, 53, 54, 55, 56, 57})"
    by (simp only: in_range_def a [symmetric] b [symmetric] c [symmetric]) simp
  have r': "((of_char c :: nat) \<in> {97, 98, 99, 100, 101, 102} \<or> (of_char c :: nat) \<in> {65, 66, 67, 68, 69, 70}
       \<or> (of_char c :: nat) \<in> {48, 49, 50, 51, 52, 53, 54, 55, 56, 57}) = (c \<in> set ''abcdefABCDEF0123456789'')"
    using r by simp
  show ?thesis by (simp only: abc r')
qed

lemma address_regex_test_iff:
  "address_regex_test s =
   (\<exists>ds. s = ''0x'' @ ds \<and> length ds = 40 \<and> set ds \<subseteq> set ''abcdefABCDEF0123456789'')"
proof
  assume t: "address_regex_test s"
  then have "take 2 s = ''0x''" by (simp add: address_regex_test_def startsWith_def numeral_2_eq_2)
  then have "s = ''0x'' @ drop 2 s" by (metis append_take_drop_id)
  moreover from t have "length (drop 2 s) = 40"
    by (simp add: address_regex_test_def)
  moreover from t have "set (drop 2 s) \<subseteq> set ''abcdefABCDEF0123456789''"
    unfolding address_regex_test_def hex_class_iff list_all_iff by blast
  ultimately show "\<exists>ds. s = ''0x'' @ ds \<and> length ds = 40 \<and> set ds \<subseteq> set ''abcdefABCDEF0123456789''"
    by blast
next
  assume "\<exists>ds. s = ''0x'' @ ds \<and> length ds = 40 \<and> set ds \<subseteq> set ''abcdefABCDEF0123456789''"
  then obtain ds where s: "s = ''0x'' @ ds" and l: "length ds = 40"
    and h: "set ds \<subseteq> set ''abcdefABCDEF0123456789''" by blast
  have "list_all (\<lambda>c. c \<in> set ''abcdefABCDEF0123456789'') ds"
    using h unfolding list_all_iff by blast
  then show "address_regex_test s"
    unfolding address_regex_test_def hex_class_iff using s l by (simp add: startsWith_def)
qed

lemma validate_uint8_iff:
  "(validateEncryptionValue bi ''uint8'' (JNumber (Num (of_int n))) = Valid) = (0 \<le> n \<and> n \<le> 255)"
  by (auto simp add: validateEncryptionValue_def js_gt_def Let_def)

lemma validate_uint32_iff:
  "(validateEncryptionValue bi ''uint32'' (JNumber (Num (of_int n))) = Valid)
   = (0 \<le> n \<and> n \<le> 4294967295)"
  by (auto simp add: validateEncryptionValue_def js_gt_def Let_def)

lemma validate_address_iff:
  "(validateEncryptionValue bi ''address'' (JString s) = Valid) = address_regex_test s"
  by (simp add: validateEncryptionValue_def Let_def)

text \<open>
  Claim C8. The validator accepts exactly the in-range values at the type boundaries: an
  integer-valued number is accepted for \<open>uint8\<close> exactly when it lies in \<open>[0, 255]\<close> (so 0 and
  255 are accepted, -1 and 256 rejected) and for \<open>uint32\<close> exactly when it lies in
  \<open>[0, 4294967295]\<close> (so 4294967295 is accepted and 4294967296 rejected); a string is accepted
  as an address exactly when it is \<open>0x\<close> followed by exactly 40 hex digits of either case (so
  39 or 41 digits, or any other character, are rejected).
\<close>

theorem validator_boundaries:
  "(validateEncryptionValue bi ''uint8'' (JNumber (Num (of_int n))) = Valid) = (0 \<le> n \<and> n \<le> 255)
   \<and> (validateEncryptionValue bi ''uint32'' (JNumber (Num (of_int n))) = Valid)
       = (0 \<le> n \<and> n \<le> 4294967295)
   \<and> (validateEncryptionValue bi ''address'' (JString s) = Valid)
       = (\<exists>ds. s = ''0x'' @ ds \<and> length ds = 40 \<and> set ds \<subseteq> set ''abcdefABCDEF0123456789'')"
  by (simp only: validate_uint8_iff validate_uint32_iff validate_address_iff address_regex_test_iff)

text \<open>The boundaries of C8 at the values the claim names.\<close>

theorem validator_boundaries_witness:
  "validateEncryptionValue sample_builtins ''uint8'' (JNumber (Num 0)) = Valid
   \<and> validateEncryptionValue sample_builtins ''uint8'' (JNumber (Num 255)) = Valid
   \<and> validateEncryptionValue sample_builtins ''uint8'' (JNumber (Num (- 1))) \<noteq> Valid
   \<and> validateEncryptionValue sample_builtins ''uint8'' (JNumber (Num 256)) \<noteq> Valid
   \<and> validateEncryptionValue sample_builtins ''uint32'' (JNumber (Num 4294967295)) = Valid
   \<and> validateEncryptionValue sample_builtins ''uint32'' (JNumber (Num 4294967296)) \<noteq> Valid
   \<and> validateEncryptionValue sample_builtins ''address''
        (JString ''0x00112233445566778899aAbBcCdDeEfF00112233'') = Valid
   \<and> validateEncryptionValue sample_builtins ''address''
        (JString ''0x00112233445566778899aAbBcCdDeEfF0011223'') \<noteq> Valid
   \<and> validateEncryptionValue sample_builtins ''address''
        (JString ''0x00112233445566778899aAbBcCdDeEfF001122334'') \<noteq> Valid
   \<and> validateEncryptionValue sample_builtins ''address''
        (JString ''0x00112233445566778899aAbBcCdDeEfF0011223g'') \<noteq> Valid"
  using validator_boundaries [of sample_builtins 0 "''0x00112233445566778899aAbBcCdDeEfF00112233''"]
    validator_boundaries [of sample_builtins 255 "''0x00112233445566778899aAbBcCdDeEfF0011223''"]
    validator_boundaries [of sample_builtins "- 1" "''0x00112233445566778899aAbBcCdDeEfF001122334''"]
    validator_boundaries [of sample_builtins 256 "''0x00112233445566778899aAbBcCdDeEfF0011223g''"]
    validator_boundaries [of sample_builtins 4294967295 "[]"]
    validator_boundaries [of sample_builtins 4294967296 "[]"]
  by simp

section \<open>Properties of the client\<close>

lemma bitlen_0: "bitlen 0 = 0"
  by (simp add: bitlen.simps)

lemma bitlen_le: "n < 2 ^ k \<Longrightarrow> bitlen n \<le> k"
proof (induction k arbitrary: n)
  case 0
  then show ?case by (simp add: bitlen_0)
next
  case (Suc k)
  show ?case
  proof (cases "n = 0")
    case True
    then show ?thesis by (simp add: bitlen_0)
  next
    case False
    from Suc.prems have "n div 2 < 2 ^ k" by simp
    then have "bitlen (n div 2) \<le> k" by (rule Suc.IH)
    with False show ?thesis by (simp add: bitlen.simps [of n])
  qed
qed

lemma round_to_double_exact: "n < 2 ^ 53 \<Longrightarrow> round_to_double n = Some n"
proof -
  assume lt: "n < 2 ^ 53"
  then have "bitlen n - 53 = 0" using bitlen_le [of n 53] by simp
  moreover have "(2::nat) ^ 53 \<le> 2 ^ 1024" by (rule power_increasing) simp_all
  then have "\<not> (2::nat) ^ 1024 \<le> n" using lt by linarith
  ultimately show ?thesis by (simp add: round_to_double_def Let_def)
qed

lemma Number_of_bigint_exact: "\<bar>b\<bar> < 2 ^ 53 \<Longrightarrow> Number_of_bigint b = Num (of_int b)"
proof -
  assume "\<bar>b\<bar> < 2 ^ 53"
  then have "nat \<bar>b\<bar> < 2 ^ 53" by (simp add: nat_less_iff)
  then have "round_to_double (nat \<bar>b\<bar>) = Some (nat \<bar>b\<bar>)" by (rule round_to_double_exact)
  then show ?thesis by (simp add: Number_of_bigint_def mult_sgn_abs)
qed

lemma sepolia_chainId: "Number_of_bigint 11155111 = Num 11155111"
  using Number_of_bigint_exact [of 11155111] by simp

lemma sample_initialize:
  "fst (initialize sample_world (new_FhevmClient sample_config)) =
     \<lparr>config = sample_config, instance' = Some sample_instance,
      publicKey = Some ''0xkey'', signature = Some ''0xsig''\<rparr>"
  by (simp add: initialize_def sample_world_def new_FhevmClient_def sample_instance_def Let_def)

lemma keyless_initialize:
  "initialize keyless_world (new_FhevmClient sample_config) =
     (\<lparr>config = sample_config, instance' = Some keyless_instance,
       publicKey = None, signature = None\<rparr>,
      [ImportFhevmjs, GetNetwork (BrowserProvider 0),
       CreateInstance \<lparr>cp_chainId = Num 11155111, publicKeyVerifier = None, cp_gatewayUrl = None\<rparr>,
       InstGetPublicKey (''0x'' @ replicate 40 CHR ''a'')],
      Inl (Error ''Failed to initialize FHEVM: Error: no key''))"
  by (simp add: initialize_def keyless_world_def sample_world_def new_FhevmClient_def
      keyless_instance_def sample_instance_def sample_config_def sepolia_chainId init_failed_def Let_def)

lemma keyless_run:
  "run_ops sample_config [OpInitialize keyless_world] =
     \<lparr>config = sample_config, instance' = Some keyless_instance,
      publicKey = None, signature = None\<rparr>"
  by (simp add: run_ops_def keyless_initialize)

text \<open>
  Claim C1. For every \<open>DecryptRequest\<close>, \<open>userDecrypt\<close> (on any client, initialized or not),
  once the provider has given its signer and its network, builds the EIP-712 payload with
  domain \<open>{name: "FHEVM Decryption", version: "1", chainId: Number(network.chainId),
  verifyingContract: request.contractAddress}\<close>, the one type
  \<open>Decryption = [{ciphertext: bytes}, {user: address}]\<close> and the value
  \<open>{ciphertext: request.ciphertext, user: request.userAddress}\<close>, and passes exactly this
  payload to the signer's \<open>signTypedData\<close>: that is the only signing call of the trace, and
  the outcome of the method is the outcome of the signer on that payload. No other payload
  is ever signed: every \<open>signTypedData\<close> call of any run has this shape.
\<close>

theorem userDecrypt_typed_data:
  "(getSigner w (as_BrowserProvider (provider (config c))) = Inr sg
    \<and> getNetwork w (as_BrowserProvider (provider (config c))) = Inr net \<longrightarrow>
      fst (userDecrypt w c request) =
        [GetSigner (as_BrowserProvider (provider (config c))),
         GetNetwork (as_BrowserProvider (provider (config c))),
         SignTypedData
           \<lparr>name = ''FHEVM Decryption'', version = ''1'',
            chainId = Number_of_bigint (chainId_of net),
            verifyingContract = req_contractAddress request\<rparr>
           [(''Decryption'', [(''ciphertext'', ''bytes''), (''user'', ''address'')])]
           \<lparr>ciphertext = req_ciphertext request, user = req_userAddress request\<rparr>]
      \<and> snd (userDecrypt w c request) =
        (case signTypedData sg
                \<lparr>name = ''FHEVM Decryption'', version = ''1'',
                 chainId = Number_of_bigint (chainId_of net),
                 verifyingContract = req_contractAddress request\<rparr>
                [(''Decryption'', [(''ciphertext'', ''bytes''), (''user'', ''address'')])]
                \<lparr>ciphertext = req_ciphertext request, user = req_userAddress request\<rparr> of
           Inl e \<Rightarrow> Inl (decryption_failed e)
         | Inr s \<Rightarrow> Inr \<lparr>value' = JNumber (Num 0), success = True\<rparr>))
   \<and> (\<forall>d t v. SignTypedData d t v \<in> set (fst (userDecrypt w c request)) \<longrightarrow>
         (\<exists>n. getNetwork w (as_BrowserProvider (provider (config c))) = Inr n
              \<and> d = \<lparr>name = ''FHEVM Decryption'', version = ''1'',
                      chainId = Number_of_bigint (chainId_of n),
                      verifyingContract = req_contractAddress request\<rparr>)
         \<and> t = [(''Decryption'', [(''ciphertext'', ''bytes''), (''user'', ''address'')])]
         \<and> v = \<lparr>ciphertext = req_ciphertext request, user = req_userAddress request\<rparr>)"
proof
  show "getSigner w (as_BrowserProvider (provider (config c))) = Inr sg
    \<and> getNetwork w (as_BrowserProvider (provider (config c))) = Inr net \<longrightarrow>
      fst (userDecrypt w c request) =
        [GetSigner (as_BrowserProvider (provider (config c))),
         GetNetwork (as_BrowserProvider (provider (config c))),
         SignTypedData
           \<lparr>name = ''FHEVM Decryption'', version = ''1'',
            chainId = Number_of_bigint (chainId_of net),
            verifyingContract = req_contractAddress request\<rparr>
           [(''Decryption'', [(''ciphertext'', ''bytes''), (''user'', ''address'')])]
           \<lparr>ciphertext = req_ciphertext request, user = req_userAddress request\<rparr>]
      \<and> snd (userDecrypt w c request) =
        (case signTypedData sg
                \<lparr>name = ''FHEVM Decryption'', version = ''1'',
                 chainId = Number_of_bigint (chainId_of net),
                 verifyingContract = req_contractAddress request\<rparr>
                [(''Decryption'', [(''ciphertext'', ''bytes''), (''user'', ''address'')])]
                \<lparr>ciphertext = req_ciphertext request, user = req_userAddress request\<rparr> of
           Inl e \<Rightarrow> Inl (decryption_failed e)
         | Inr s \<Rightarrow> Inr \<lparr>value' = JNumber (Num 0), success = True\<rparr>)"
    by (simp add: userDecrypt_def decryption_types_def mock_result_def Let_def split: sum.splits)
next
  show "\<forall>d t v. SignTypedData d t v \<in> set (fst (userDecrypt w c request)) \<longrightarrow>
         (\<exists>n. getNetwork w (as_BrowserProvider (provider (config c))) = Inr n
              \<and> d = \<lparr>name = ''FHEVM Decryption'', version = ''1'',
                      chainId = Number_of_bigint (chainId_of n),
                      verifyingContract = req_contractAddress request\<rparr>)
         \<and> t = [(''Decryption'', [(''ciphertext'', ''bytes''), (''user'', ''address'')])]
         \<and> v = \<lparr>ciphertext = req_ciphertext request, user = req_userAddress request\<rparr>"
    by (simp add: userDecrypt_def decryption_types_def Let_def split: sum.splits)
qed

text \<open>C1 on an initialized client on Sepolia (chain id 11155111).\<close>

theorem userDecrypt_typed_data_witness:
  "isInitialized (fst (initialize sample_world (new_FhevmClient sample_config)))
   \<and> fst (userDecrypt sample_world (fst (initialize sample_world (new_FhevmClient sample_config)))
            \<lparr>req_ciphertext = [1, 2, 3], req_contractAddress = ''0xC'', req_userAddress = ''0xU''\<rparr>) =
       [GetSigner (BrowserProvider 0), GetNetwork (BrowserProvider 0),
        SignTypedData
          \<lparr>name = ''FHEVM Decryption'', version = ''1'', chainId = Num 11155111,
           verifyingContract = ''0xC''\<rparr>
          [(''Decryption'', [(''ciphertext'', ''bytes''), (''user'', ''address'')])]
          \<lparr>ciphertext = [1, 2, 3], user = ''0xU''\<rparr>]"
  using userDecrypt_typed_data
    [where w = sample_world
       and c = "fst (initialize sample_world (new_FhevmClient sample_config))"
       and sg = sample_signer and net = "Network 11155111"
       and request = "\<lparr>req_ciphertext = [1, 2, 3], req_contractAddress = ''0xC'',
                        req_userAddress = ''0xU''\<rparr>",
     THEN conjunct1]
  unfolding sample_initialize
  by (simp add: sepolia_chainId isInitialized_def sample_world_def sample_config_def)

text \<open>
  Claim C10. For every contract address and every ciphertext, \<open>publicDecrypt\<close> resolves with
  exactly \<open>{value: 0, success: true}\<close>; it makes no call outside and its result does not
  depend on its arguments.
\<close>

theorem publicDecrypt_constant:
  "publicDecrypt c contractAddr ct = ([], Inr \<lparr>value' = JNumber (Num 0), success = True\<rparr>)"
  by (simp add: publicDecrypt_def try_catch_def mock_result_def)

text \<open>
  Claim C3, as amended. On success \<open>initialize\<close> populates \<open>instance\<close>, \<open>publicKey\<close> and
  \<open>signature\<close> together, with the instance \<open>createInstance\<close> returned and the key and
  signature that instance derived, and resolves to those three values. On any failure it
  rejects with \<open>Failed to initialize FHEVM:\<close> followed by the error that was thrown, and
  leaves \<open>publicKey\<close> and \<open>signature\<close> as they were. When the failure is that of the import,
  of the network lookup or of the instance creation, the client is unchanged; when the
  instance was created and its public-key derivation threw, the client differs from the one
  before only in \<open>instance\<close>, which holds the instance just created.
\<close>

theorem initialize_outcome:
  "(import_fhevmjs w = Inl e0 \<longrightarrow>
      fst (initialize w c) = c \<and> snd (snd (initialize w c)) = Inl (init_failed e0))
   \<and> (import_fhevmjs w = Inr createInstance
       \<and> getNetwork w (as_BrowserProvider (provider (config c))) = Inl e0 \<longrightarrow>
      fst (initialize w c) = c \<and> snd (snd (initialize w c)) = Inl (init_failed e0))
   \<and> (import_fhevmjs w = Inr createInstance
       \<and> getNetwork w (as_BrowserProvider (provider (config c))) = Inr net
       \<and> createInstance \<lparr>cp_chainId = Number_of_bigint (chainId_of net),
                           publicKeyVerifier = aclAddress (config c),
                           cp_gatewayUrl = gatewayUrl (config c)\<rparr> = Inl e0 \<longrightarrow>
      fst (initialize w c) = c \<and> snd (snd (initialize w c)) = Inl (init_failed e0))
   \<and> (import_fhevmjs w = Inr createInstance
       \<and> getNetwork w (as_BrowserProvider (provider (config c))) = Inr net
       \<and> createInstance \<lparr>cp_chainId = Number_of_bigint (chainId_of net),
                           publicKeyVerifier = aclAddress (config c),
                           cp_gatewayUrl = gatewayUrl (config c)\<rparr> = Inr i
       \<and> inst_getPublicKey i (contractAddress (config c)) = Inl e0 \<longrightarrow>
      fst (initialize w c) = c\<lparr>instance' := Some i\<rparr>
      \<and> snd (snd (initialize w c)) = Inl (init_failed e0))
   \<and> (import_fhevmjs w = Inr createInstance
       \<and> getNetwork w (as_BrowserProvider (provider (config c))) = Inr net
       \<and> createInstance \<lparr>cp_chainId = Number_of_bigint (chainId_of net),
                           publicKeyVerifier = aclAddress (config c),
                           cp_gatewayUrl = gatewayUrl (config c)\<rparr> = Inr i
       \<and> inst_getPublicKey i (contractAddress (config c)) = Inr (pk, sg) \<longrightarrow>
      fst (initialize w c) = c\<lparr>instance' := Some i, publicKey := Some pk, signature := Some sg\<rparr>
      \<and> snd (snd (initialize w c))
          = Inr \<lparr>ir_instance = i, ir_publicKey = pk, ir_signature = sg\<rparr>)"
  by (simp add: initialize_def Let_def)

text \<open>The outcome of C3 on a run that succeeds, on one whose public-key derivation throws and
  on one whose network lookup fails.\<close>

theorem initialize_outcome_witness:
  "fst (initialize sample_world (new_FhevmClient sample_config))
     = \<lparr>config = sample_config, instance' = Some sample_instance,
        publicKey = Some ''0xkey'', signature = Some ''0xsig''\<rparr>
   \<and> snd (snd (initialize sample_world (new_FhevmClient sample_config)))
     = Inr \<lparr>ir_instance = sample_instance, ir_publicKey = ''0xkey'', ir_signature = ''0xsig''\<rparr>
   \<and> fst (initialize keyless_world (new_FhevmClient sample_config))
     = \<lparr>config = sample_config, instance' = Some keyless_instance,
        publicKey = None, signature = None\<rparr>
   \<and> snd (snd (initialize keyless_world (new_FhevmClient sample_config)))
     = Inl (Error ''Failed to initialize FHEVM: Error: no key'')
   \<and> fst (initialize offline_world (new_FhevmClient sample_config)) = new_FhevmClient sample_config
   \<and> snd (snd (initialize offline_world (new_FhevmClient sample_config)))
     = Inl (Error ''Failed to initialize FHEVM: Error: network down'')"
proof -
  have ok: "inst_getPublicKey sample_instance (contractAddress sample_config) = Inr (''0xkey'', ''0xsig'')"
    by (simp add: sample_instance_def)
  have bad: "inst_getPublicKey keyless_instance (contractAddress sample_config) = Inl (Error ''no key'')"
    by (simp add: keyless_instance_def)
  note a = initialize_outcome
    [where w = sample_world and c = "new_FhevmClient sample_config"
       and createInstance = "\<lambda>p. Inr sample_instance" and net = "Network 11155111"
       and i = sample_instance and pk = "''0xkey''" and sg = "''0xsig''",
     THEN conjunct2, THEN conjunct2, THEN conjunct2, THEN conjunct2]
  note b = initialize_outcome
    [where w = keyless_world and c = "new_FhevmClient sample_config"
       and createInstance = "\<lambda>p. Inr keyless_instance" and net = "Network 11155111"
       and i = keyless_instance and ?e0.0 = "Error ''no key''",
     THEN conjunct2, THEN conjunct2, THEN conjunct2, THEN conjunct1]
  note d = initialize_outcome
    [where w = offline_world and c = "new_FhevmClient sample_config"
       and createInstance = "\<lambda>p. Inr sample_instance" and ?e0.0 = "Error ''network down''",
     THEN conjunct2, THEN conjunct1]
  show ?thesis
    using a b d ok bad
    by (simp add: sample_world_def keyless_world_def offline_world_def new_FhevmClient_def
        init_failed_def)
qed

text \<open>
  Claim C3 as stated asks for all three fields to be absent after a failure. On a fresh
  client, when instance creation succeeds and the public-key derivation throws,
  \<open>initialize\<close> rejects and \<open>instance\<close> is set.
\<close>

theorem initialize_atomic_counterexample:
  "isl (snd (snd (initialize keyless_world (new_FhevmClient sample_config))))
   \<and> instance' (fst (initialize keyless_world (new_FhevmClient sample_config))) \<noteq> None"
  by (simp add: keyless_initialize)

lemma initialize_keeps_absent:
  assumes "instance' c = None \<longrightarrow> publicKey c = None \<and> signature c = None"
  shows "instance' (fst (initialize w c)) = None \<longrightarrow>
         publicKey (fst (initialize w c)) = None \<and> signature (fst (initialize w c)) = None"
  using assms by (auto simp add: initialize_def Let_def split: sum.splits prod.splits)

lemma exec_op_keeps_absent:
  assumes "instance' c = None \<longrightarrow> publicKey c = None \<and> signature c = None"
  shows "instance' (exec_op c op) = None \<longrightarrow>
         publicKey (exec_op c op) = None \<and> signature (exec_op c op) = None"
  using assms initialize_keeps_absent by (cases op) simp_all

lemma foldl_exec_op_keeps_absent:
  "(instance' c = None \<longrightarrow> publicKey c = None \<and> signature c = None) \<Longrightarrow>
   instance' (foldl exec_op c ops) = None \<longrightarrow>
   publicKey (foldl exec_op c ops) = None \<and> signature (foldl exec_op c ops) = None"
proof (induction ops arbitrary: c)
  case Nil
  then show ?case by simp
next
  case (Cons op ops)
  from Cons.prems have "instance' (exec_op c op) = None \<longrightarrow>
         publicKey (exec_op c op) = None \<and> signature (exec_op c op) = None"
    by (rule exec_op_keeps_absent)
  then show ?case using Cons.IH [of "exec_op c op"] by simp
qed

lemma reachable_absent:
  "instance' (run_ops cfg ops) = None \<Longrightarrow>
   publicKey (run_ops cfg ops) = None \<and> signature (run_ops cfg ops) = None"
  using foldl_exec_op_keeps_absent [of "new_FhevmClient cfg" ops]
  by (simp add: run_ops_def new_FhevmClient_def)

text \<open>
  Claim C2, as amended. In every state a client reaches from construction through any
  sequence of operations, if \<open>isInitialized()\<close> is false then \<open>getPublicKey()\<close> and
  \<open>getSignature()\<close> both throw: \<open>publicKey\<close> and \<open>signature\<close> are absent whenever
  \<open>instance\<close> is absent.
\<close>

theorem getters_throw_when_not_initialized:
  assumes "\<not> isInitialized (run_ops cfg ops)"
  shows "getPublicKey (run_ops cfg ops) = Inl not_initialized
         \<and> getSignature (run_ops cfg ops) = Inl not_initialized
         \<and> publicKey (run_ops cfg ops) = None \<and> signature (run_ops cfg ops) = None"
  using assms reachable_absent [of cfg ops]
  by (simp add: isInitialized_def getPublicKey_def getSignature_def falsy_string_def)

text \<open>C2 on a client that was never initialized.\<close>

theorem getters_throw_when_not_initialized_witness:
  "\<not> isInitialized (run_ops sample_config [OpEncryptBool (JBoolean True), OpGetPublicKey])
   \<and> getPublicKey (run_ops sample_config [OpEncryptBool (JBoolean True), OpGetPublicKey])
       = Inl (Error ''FHEVM instance not initialized. Call initialize() first.'')
   \<and> getSignature (run_ops sample_config [OpEncryptBool (JBoolean True), OpGetPublicKey])
       = Inl (Error ''FHEVM instance not initialized. Call initialize() first.'')"
  using getters_throw_when_not_initialized
    [of sample_config "[OpEncryptBool (JBoolean True), OpGetPublicKey]"]
  by (simp add: run_ops_def new_FhevmClient_def isInitialized_def not_initialized_def)

text \<open>
  Claim C2 as stated is an equivalence. After an \<open>initialize\<close> whose instance creation
  succeeded and whose public-key derivation threw, \<open>isInitialized()\<close> is true and both
  getters throw.
\<close>

theorem getters_iff_counterexample:
  "isInitialized (run_ops sample_config [OpInitialize keyless_world])
   \<and> isl (getPublicKey (run_ops sample_config [OpInitialize keyless_world]))
   \<and> isl (getSignature (run_ops sample_config [OpInitialize keyless_world]))
   \<and> publicKey (run_ops sample_config [OpInitialize keyless_world]) = None"
  by (simp add: keyless_run isInitialized_def getPublicKey_def getSignature_def falsy_string_def)

text \<open>
  Claim C4, as amended. A typed encrypt operation on a client that has an instance does not
  validate its argument: it passes the argument unchanged to the matching typed encrypt
  entry point of the instance, in one call, and returns or throws what that entry point
  returns or throws.
\<close>

theorem encrypt_delegates_unvalidated:
  assumes "instance' c = Some i"
  shows "encryptBool c v = ([InstEncryptBool v], inst_encrypt_bool i v)
         \<and> encryptUint8 c v = ([InstEncryptUint8 v], inst_encrypt_uint8 i v)
         \<and> encryptUint16 c v = ([InstEncryptUint16 v], inst_encrypt_uint16 i v)
         \<and> encryptUint32 c v = ([InstEncryptUint32 v], inst_encrypt_uint32 i v)
         \<and> encryptUint64 c v = ([InstEncryptUint64 v], inst_encrypt_uint64 i v)
         \<and> encryptAddress c v = ([InstEncryptAddress v], inst_encrypt_address i v)"
  using assms
  by (simp add: encryptBool_def encryptUint8_def encryptUint16_def encryptUint32_def
      encryptUint64_def encryptAddress_def via_instance_def getInstance_def)

text \<open>C4 on an initialized client, with 256 given to \<open>encryptUint8\<close>.\<close>

theorem encrypt_delegates_unvalidated_witness:
  "instance' (fst (initialize sample_world (new_FhevmClient sample_config))) = Some sample_instance
   \<and> encryptUint8 (fst (initialize sample_world (new_FhevmClient sample_config))) (JNumber (Num 256))
       = ([InstEncryptUint8 (JNumber (Num 256))], Inr [1, 2, 3])"
  using encrypt_delegates_unvalidated
    [of "fst (initialize sample_world (new_FhevmClient sample_config))" sample_instance
        "JNumber (Num 256)"]
  unfolding sample_initialize
  by (simp add: sample_instance_def)

text \<open>
  Claim C4 as stated asks for a validation error before any call to the instance. On an
  initialized client \<open>encryptAddress("0x123")\<close>, which \<open>validateEncryptionValue\<close> rejects,
  reaches \<open>encrypt_address\<close> of the instance and returns its ciphertext.
\<close>

theorem encrypt_validation_counterexample:
  "isInitialized (fst (initialize sample_world (new_FhevmClient sample_config)))
   \<and> validateEncryptionValue sample_builtins ''address'' (JString ''0x123'')
       = Invalid ''Value must be a valid Ethereum address''
   \<and> encryptAddress (fst (initialize sample_world (new_FhevmClient sample_config))) (JString ''0x123'')
       = ([InstEncryptAddress (JString ''0x123'')], Inr [1, 2, 3])"
  unfolding sample_initialize
  by (simp add: isInitialized_def validateEncryptionValue_def address_regex_test_def startsWith_def
      encryptAddress_def via_instance_def getInstance_def sample_instance_def Let_def)

lemma initialize_config: "config (fst (initialize w c)) = config c"
  by (simp add: initialize_def Let_def split: sum.splits prod.splits)

lemma initialize_isInitialized:
  "isInitialized (fst (initialize w c)) = (isInitialized c \<or> creates_instance (config c) w)"
  by (auto simp add: initialize_def creates_instance_def isInitialized_def Let_def
      split: sum.splits prod.splits)

lemma exec_op_config: "config (exec_op c op) = config c"
  by (cases op) (simp_all add: initialize_config)

lemma exec_op_isInitialized:
  "isInitialized (exec_op c op) = (isInitialized c \<or> op_creates_instance (config c) op)"
  by (cases op) (simp_all add: initialize_isInitialized)

lemma foldl_exec_op_isInitialized:
  "isInitialized (foldl exec_op c ops) =
   (isInitialized c \<or> (\<exists>op \<in> set ops. op_creates_instance (config c) op))"
proof (induction ops arbitrary: c)
  case Nil
  then show ?case by simp
next
  case (Cons op ops)
  show ?case
    using Cons.IH [of "exec_op c op"]
    by (auto simp add: exec_op_config exec_op_isInitialized)
qed

lemma run_ops_isInitialized:
  "isInitialized (run_ops cfg ops) = (\<exists>op \<in> set ops. op_creates_instance cfg op)"
  using foldl_exec_op_isInitialized [of "new_FhevmClient cfg" ops]
  by (simp add: run_ops_def new_FhevmClient_def isInitialized_def)

text \<open>
  Claim C7, as amended. For a client whose instance is absent (\<open>isInitialized()\<close> is false),
  every typed encrypt call throws the error
  \<open>FHEVM instance not initialized. Call initialize() first.\<close> before any call outside is
  made, once, with no retry. The instance is absent exactly on a client on which no
  \<open>initialize\<close> has so far got as far as creating an instance, a fresh client among them.
\<close>

theorem encrypt_requires_instance:
  "(\<not> isInitialized c \<longrightarrow>
      encryptBool c v = ([], Inl not_initialized)
      \<and> encryptUint8 c v = ([], Inl not_initialized)
      \<and> encryptUint16 c v = ([], Inl not_initialized)
      \<and> encryptUint32 c v = ([], Inl not_initialized)
      \<and> encryptUint64 c v = ([], Inl not_initialized)
      \<and> encryptAddress c v = ([], Inl not_initialized))
   \<and> (\<not> isInitialized (run_ops cfg ops)) = (\<forall>op \<in> set ops. \<not> op_creates_instance cfg op)"
proof
  show "\<not> isInitialized c \<longrightarrow>
      encryptBool c v = ([], Inl not_initialized)
      \<and> encryptUint8 c v = ([], Inl not_initialized)
      \<and> encryptUint16 c v = ([], Inl not_initialized)
      \<and> encryptUint32 c v = ([], Inl not_initialized)
      \<and> encryptUint64 c v = ([], Inl not_initialized)
      \<and> encryptAddress c v = ([], Inl not_initialized)"
    by (simp add: encryptBool_def encryptUint8_def encryptUint16_def encryptUint32_def
        encryptUint64_def encryptAddress_def via_instance_def getInstance_def isInitialized_def)
next
  show "(\<not> isInitialized (run_ops cfg ops)) = (\<forall>op \<in> set ops. \<not> op_creates_instance cfg op)"
    by (simp add: run_ops_isInitialized)
qed

text \<open>C7 on a client whose only \<open>initialize\<close> failed at the network lookup.\<close>

theorem encrypt_requires_instance_witness:
  "\<not> isInitialized (run_ops sample_config [OpInitialize offline_world, OpGetInstance])
   \<and> encryptBool (run_ops sample_config [OpInitialize offline_world, OpGetInstance]) (JBoolean True)
       = ([], Inl (Error ''FHEVM instance not initialized. Call initialize() first.''))"
  using encrypt_requires_instance
    [where c = "run_ops sample_config [OpInitialize offline_world, OpGetInstance]"
       and v = "JBoolean True" and cfg = sample_config
       and ops = "[OpInitialize offline_world, OpGetInstance]"]
  by (simp add: creates_instance_def offline_world_def sample_world_def not_initialized_def)

text \<open>
  Claim C7 as stated covers every client on which \<open>initialize\<close> never completed
  successfully. After an \<open>initialize\<close> that rejected because the public-key derivation
  threw, \<open>encryptBool(true)\<close> calls the instance and returns a ciphertext.
\<close>

theorem encrypt_after_failed_initialize_counterexample:
  "isl (snd (snd (initialize keyless_world (new_FhevmClient sample_config))))
   \<and> encryptBool (run_ops sample_config [OpInitialize keyless_world]) (JBoolean True)
       = ([InstEncryptBool (JBoolean True)], Inr [1, 2, 3])"
  unfolding keyless_run keyless_initialize
  by (simp add: encryptBool_def via_instance_def getInstance_def keyless_instance_def
      sample_instance_def)

section \<open>Properties of the hooks\<close>

text \<open>
  Claim C9. When the encrypt callback of \<open>useFhevmEncrypt\<close> runs while the session is not
  initialized (the provider's flag is false, or there is no client), it calls one setter,
  the one that stores the error \<open>FHEVM client not initialized\<close>, makes no call outside and
  resolves to null; in every state during the run \<open>isEncrypting\<close> and \<open>encrypted\<close> are what
  they were before, so the pending flag never becomes true and the result stays absent. The
  decrypt callback of \<open>useFhevmDecrypt\<close> behaves the same way.
\<close>

theorem hooks_refuse_when_not_initialized:
  assumes "\<not> ctx_isInitialized ctx \<or> ctx_client ctx = None"
  shows "useFhevmEncrypt_encrypt ctx type' v = ([SetError (Some client_not_initialized)], [], None)
         \<and> (\<forall>s \<in> set (encrypt_states st (fst (useFhevmEncrypt_encrypt ctx type' v))).
               isEncrypting s = isEncrypting st \<and> encrypted s = encrypted st)
         \<and> error (last (encrypt_states st (fst (useFhevmEncrypt_encrypt ctx type' v))))
             = Some client_not_initialized
         \<and> useFhevmDecrypt_decrypt w ctx request
             = ([SetDecryptError (Some client_not_initialized)], [], None)
         \<and> (\<forall>s \<in> set (decrypt_states dst (fst (useFhevmDecrypt_decrypt w ctx request))).
               isDecrypting s = isDecrypting dst \<and> decrypted s = decrypted dst)
         \<and> decrypt_error (last (decrypt_states dst (fst (useFhevmDecrypt_decrypt w ctx request))))
             = Some client_not_initialized"
proof -
  have e: "useFhevmEncrypt_encrypt ctx type' v = ([SetError (Some client_not_initialized)], [], None)"
    using assms by (auto simp add: useFhevmEncrypt_encrypt_def split: option.splits)
  have d: "useFhevmDecrypt_decrypt w ctx request
             = ([SetDecryptError (Some client_not_initialized)], [], None)"
    using assms by (auto simp add: useFhevmDecrypt_decrypt_def split: option.splits)
  show ?thesis unfolding e d by simp
qed

text \<open>C9 on a hook in its initial state, under a provider that has not initialized.\<close>

theorem hooks_refuse_when_not_initialized_witness:
  "useFhevmEncrypt_encrypt
      \<lparr>ctx_client = Some (new_FhevmClient sample_config), ctx_isInitialized = False\<rparr>
      ''bool'' (JBoolean True)
     = ([SetError (Some (Error ''FHEVM client not initialized''))], [], None)
   \<and> encrypt_states encrypt_state_init
        (fst (useFhevmEncrypt_encrypt
               \<lparr>ctx_client = Some (new_FhevmClient sample_config), ctx_isInitialized = False\<rparr>
               ''bool'' (JBoolean True)))
     = [\<lparr>isEncrypting = False, encrypted = None, encryptedHex = None, error = None\<rparr>,
        \<lparr>isEncrypting = False, encrypted = None, encryptedHex = None,
         error = Some (Error ''FHEVM client not initialized'')\<rparr>]
   \<and> useFhevmDecrypt_decrypt sample_world
        \<lparr>ctx_client = Some (new_FhevmClient sample_config), ctx_isInitialized = False\<rparr>
        sample_request
     = ([SetDecryptError (Some (Error ''FHEVM client not initialized''))], [], None)"
  using hooks_refuse_when_not_initialized
    [of "\<lparr>ctx_client = Some (new_FhevmClient sample_config), ctx_isInitialized = False\<rparr>"
        "''bool''" "JBoolean True" encrypt_state_init sample_world sample_request decrypt_state_init]
  by (simp add: client_not_initialized_def encrypt_state_init_def)

end
